theory Spec2Isabelle
  imports Main "HOL-Library.Word"
begin

section \<open>JavaScript strings\<close>

text \<open>
  A JavaScript string is a sequence of UTF-16 code units. The regular expressions of
  \<^verbatim>\<open>useYjs.ts\<close> carry no \<^verbatim>\<open>u\<close> flag, so they match code unit by code unit, and
  every character they look for is a single code unit.
\<close>

type_synonym jschar = "16 word"
type_synonym jsstring = "jschar list"

definition js :: "string \<Rightarrow> jsstring" where
  \<comment> \<open>an ASCII literal of the source as code units\<close>
  "js s = map (\<lambda>c. of_char c) s"

definition replace_g :: "(jschar \<Rightarrow> bool) \<Rightarrow> jsstring \<Rightarrow> jsstring \<Rightarrow> jsstring" where
  \<comment> \<open>\<^verbatim>\<open>s.replace(/[class]/g, r)\<close>: every code unit of the class becomes \<open>r\<close>\<close>
  "replace_g cls r s = concat (map (\<lambda>c. if cls c then r else [c]) s)"

definition is_sep :: "jschar \<Rightarrow> bool" where
  \<comment> \<open>\<^verbatim>\<open>/[\/\\]/\<close>\<close>
  "is_sep c = (c = 0x2F \<or> c = 0x5C)"

definition is_dot :: "jschar \<Rightarrow> bool" where
  \<comment> \<open>\<^verbatim>\<open>/\./\<close>\<close>
  "is_dot c = (c = 0x2E)"

definition is_space :: "jschar \<Rightarrow> bool" where
  \<comment> \<open>\<^verbatim>\<open>/\s/\<close>: ECMAScript WhiteSpace and LineTerminator code points\<close>
  "is_space c =
     (c = 0x09 \<or> c = 0x0A \<or> c = 0x0B \<or> c = 0x0C \<or> c = 0x0D \<or> c = 0x20 \<or> c = 0xA0
      \<or> c = 0x1680 \<or> (0x2000 \<le> c \<and> c \<le> 0x200A) \<or> c = 0x2028 \<or> c = 0x2029
      \<or> c = 0x202F \<or> c = 0x205F \<or> c = 0x3000 \<or> c = 0xFEFF)"

section \<open>Room name (useYjs.ts, lines 160-165)\<close>

definition safeFile :: "jsstring \<Rightarrow> jsstring" where
  "safeFile activeFile =
     replace_g is_dot (js ''-'') (replace_g is_sep (js ''--'') activeFile)"

definition safeBranch :: "jsstring \<Rightarrow> jsstring" where
  "safeBranch currentBranch =
     replace_g is_space (js ''%20'') (replace_g is_sep (js ''--'') currentBranch)"

definition roomName :: "jsstring \<Rightarrow> jsstring \<Rightarrow> jsstring \<Rightarrow> jsstring" where
  "roomName projectId currentBranch activeFile =
     projectId @ js ''-'' @ safeBranch currentBranch @ js ''--'' @ safeFile activeFile"

subsection \<open>The escaping as the specification words it\<close>

text \<open>
  The specification describes one escaping pass per name: a path separator becomes
  \<^verbatim>\<open>--\<close>; in a branch name a whitespace character becomes \<^verbatim>\<open>%20\<close>; in a file path a dot
  becomes \<^verbatim>\<open>-\<close>; every other code unit stays.
\<close>

definition escape_branch_spec :: "jsstring \<Rightarrow> jsstring" where
  "escape_branch_spec b =
     concat (map (\<lambda>c. if is_sep c then js ''--'' else if is_space c then js ''%20'' else [c]) b)"

definition escape_file_spec :: "jsstring \<Rightarrow> jsstring" where
  "escape_file_spec f =
     concat (map (\<lambda>c. if is_sep c then js ''--'' else if is_dot c then js ''-'' else [c]) f)"

section \<open>The state of the hook\<close>

text \<open>
  Objects (documents, providers, bindings, models, listeners) are named by handles. The
  refs of \<^verbatim>\<open>useYjs\<close> hold a handle or null. The \<^verbatim>\<open>files\<close> record is one object shared by
  every callback, so it lives in the state; so do the contents of each \<^verbatim>\<open>Y.Doc\<close> and the
  disposed flag of each Monaco model. Every call that leaves the hook (console, provider,
  editor, document) is appended to \<open>trace\<close>.
\<close>

type_synonym handle = nat

datatype component = AwarenessListener | CursorListener | Binding | Provider | YDoc

record provider =
  provider_id :: handle
  clientID :: nat

text \<open>
  Of a \<^verbatim>\<open>Y.Doc\<close> the hook reads three things: \<^verbatim>\<open>ytext.toString()\<close>, \<^verbatim>\<open>ytext.length\<close> and the
  keys of the metadata map. They are the fields of \<open>ydoc\<close>.
\<close>

record ydoc =
  ytext :: jsstring
  ytext_length :: nat
  ymap :: "string \<rightharpoonup> bool"

text \<open>
  What a property read can give the hook: \<^verbatim>\<open>undefined\<close>, a string, or a member inherited from
  \<^verbatim>\<open>Object.prototype\<close> (a function, or the prototype object itself for \<^verbatim>\<open>__proto__\<close>), named
  by its property name. An inherited member is neither nullish nor falsy.
\<close>

datatype jsvalue = Undefined | Str jsstring | Inherited jsstring

record cursor =
  line :: "int option"
  column :: "int option"

record user_info =
  name :: "jsstring option"
  email :: "jsstring option"
  color :: "jsstring option"

record PresenceUser =
  clientId :: nat
  user :: "user_info option"
  cursor :: "cursor option"

record decoration =
  range :: "int \<times> int \<times> int \<times> int"
  isWholeLine :: bool
  hoverMessage :: jsstring
  inlineClassName :: jsstring

datatype event =
    ConsoleLog
  | ConsoleWarn component
  | ConsoleError
  | AwarenessOff handle handle
  | CursorDispose handle
  | BindingDestroy handle
  | ProviderDestroy handle
  | YDocDestroy handle
  | NewYDoc handle
  | NewProvider handle jsstring handle
  | CreateModel handle jsvalue jsstring
  | SetModel handle
  | ProviderOnSynced handle
  | SetLocalUser handle
  | AwarenessOn handle handle
  | OnDidChangeCursorPosition handle
  | ImportYMonaco
  | YTextInsert handle nat jsvalue
  | YMapSet handle string bool
  | FilesWrite jsstring jsstring
  | NewBinding handle handle handle
  | YTextObserve handle
  | DeltaDecorations "jsstring list" "decoration list"
  | CreateStyleElement

record hook_state =
  decorationsRef :: "jsstring list"
  providerRef :: "provider option"
  ydocRef :: "handle option"
  bindingRef :: "handle option"
  modelRef :: "handle option"
  cursorListenerRef :: "handle option"
  awarenessListenerRef :: "handle option"
  files :: "jsstring \<rightharpoonup> jsstring"  \<comment> \<open>the own properties of the \<^verbatim>\<open>files\<close> object\<close>
  ydocs :: "handle \<Rightarrow> ydoc"
  isDisposed :: "handle \<Rightarrow> bool"
  styleEl :: "(nat \<times> jsstring) option list option"
  trace :: "event list"

subsection \<open>Statements that may throw\<close>

datatype outcome = Normal | Throw

type_synonym stmt = "hook_state \<Rightarrow> outcome \<times> hook_state"

definition emit :: "event \<Rightarrow> stmt" where
  "emit e s = (Normal, s\<lparr>trace := trace s @ [e]\<rparr>)"

definition invoke :: "bool \<Rightarrow> event \<Rightarrow> stmt" where
  \<comment> \<open>a call into a library object; \<open>throws\<close> says whether this call raises\<close>
  "invoke throws e s = (if throws then Throw else Normal, s\<lparr>trace := trace s @ [e]\<rparr>)"

definition assign :: "(hook_state \<Rightarrow> hook_state) \<Rightarrow> stmt" where
  "assign f s = (Normal, f s)"

definition seq :: "stmt \<Rightarrow> stmt \<Rightarrow> stmt" where
  "seq a b s = (case a s of (Normal, s') \<Rightarrow> b s' | (Throw, s') \<Rightarrow> (Throw, s'))"

definition try_catch :: "stmt \<Rightarrow> stmt \<Rightarrow> stmt" where
  "try_catch body handler s =
     (case body s of (Normal, s') \<Rightarrow> (Normal, s') | (Throw, s') \<Rightarrow> handler s')"

subsection \<open>Reading and writing the files object\<close>

text \<open>
  \<^verbatim>\<open>files\<close> is a \<^verbatim>\<open>Record<string, string>\<close>: an ordinary object whose prototype is
  \<^verbatim>\<open>Object.prototype\<close>. The hook reads \<^verbatim>\<open>files[activeFile]\<close> and assigns to it with no
  own-property check, so a read of a name the object does not own goes on to the prototype,
  and an assignment to \<^verbatim>\<open>__proto__\<close> on an object that does not own that name reaches the
  prototype's setter, which ignores a string.
\<close>

definition proto_names :: "jsstring list" where
  \<comment> \<open>the property names of \<^verbatim>\<open>Object.prototype\<close>\<close>
  "proto_names =
     map js [''constructor'', ''__defineGetter__'', ''__defineSetter__'', ''hasOwnProperty'',
       ''__lookupGetter__'', ''__lookupSetter__'', ''isPrototypeOf'', ''propertyIsEnumerable'',
       ''toString'', ''valueOf'', ''__proto__'', ''toLocaleString'']"

definition files_get :: "(jsstring \<rightharpoonup> jsstring) \<Rightarrow> jsstring \<Rightarrow> jsvalue" where
  \<comment> \<open>\<^verbatim>\<open>files[k]\<close>\<close>
  "files_get fs k =
     (case fs k of
        Some v \<Rightarrow> Str v
      | None \<Rightarrow> if k \<in> set proto_names then Inherited k else Undefined)"

definition files_set ::
    "(jsstring \<rightharpoonup> jsstring) \<Rightarrow> jsstring \<Rightarrow> jsstring \<Rightarrow> (jsstring \<rightharpoonup> jsstring)" where
  \<comment> \<open>\<^verbatim>\<open>files[k] = v\<close> for a string \<open>v\<close>\<close>
  "files_set fs k v = (if k = js ''__proto__'' \<and> fs k = None then fs else fs(k \<mapsto> v))"

definition or_empty :: "jsvalue \<Rightarrow> jsvalue" where
  \<comment> \<open>\<^verbatim>\<open>v ?? ""\<close>\<close>
  "or_empty v = (case v of Undefined \<Rightarrow> Str [] | _ \<Rightarrow> v)"

definition truthy :: "jsvalue \<Rightarrow> bool" where
  "truthy v = (case v of Undefined \<Rightarrow> False | Str t \<Rightarrow> t \<noteq> [] | Inherited _ \<Rightarrow> True)"

type_synonym insert_value = "jsvalue \<Rightarrow> ydoc \<Rightarrow> outcome \<times> ydoc"

section \<open>cleanupAll (useYjs.ts, lines 84-144)\<close>

text \<open>
  \<open>fails c\<close> says whether, in this run, the teardown call on component \<open>c\<close> throws.
  Each block is the source's \<^verbatim>\<open>if (ref.current) { try { call; ref.current = null }
  catch { console.warn } }\<close>.
\<close>

definition cleanup_awareness :: "(component \<Rightarrow> bool) \<Rightarrow> stmt" where
  "cleanup_awareness fails s =
     (case (awarenessListenerRef s, providerRef s) of
        (Some l, Some p) \<Rightarrow>
          try_catch
            (seq (invoke (fails AwarenessListener) (AwarenessOff (provider_id p) l))
                 (assign (\<lambda>s. s\<lparr>awarenessListenerRef := None\<rparr>)))
            (emit (ConsoleWarn AwarenessListener)) s
      | _ \<Rightarrow> (Normal, s))"

definition cleanup_cursor :: "(component \<Rightarrow> bool) \<Rightarrow> stmt" where
  "cleanup_cursor fails s =
     (case cursorListenerRef s of
        Some l \<Rightarrow>
          try_catch
            (seq (invoke (fails CursorListener) (CursorDispose l))
                 (assign (\<lambda>s. s\<lparr>cursorListenerRef := None\<rparr>)))
            (emit (ConsoleWarn CursorListener)) s
      | None \<Rightarrow> (Normal, s))"

definition cleanup_binding :: "(component \<Rightarrow> bool) \<Rightarrow> stmt" where
  "cleanup_binding fails s =
     (case bindingRef s of
        Some b \<Rightarrow>
          try_catch
            (seq (invoke (fails Binding) (BindingDestroy b))
                 (assign (\<lambda>s. s\<lparr>bindingRef := None\<rparr>)))
            (emit (ConsoleWarn Binding)) s
      | None \<Rightarrow> (Normal, s))"

definition cleanup_provider :: "(component \<Rightarrow> bool) \<Rightarrow> stmt" where
  "cleanup_provider fails s =
     (case providerRef s of
        Some p \<Rightarrow>
          try_catch
            (seq (invoke (fails Provider) (ProviderDestroy (provider_id p)))
                 (assign (\<lambda>s. s\<lparr>providerRef := None\<rparr>)))
            (emit (ConsoleWarn Provider)) s
      | None \<Rightarrow> (Normal, s))"

definition cleanup_ydoc :: "(component \<Rightarrow> bool) \<Rightarrow> stmt" where
  "cleanup_ydoc fails s =
     (case ydocRef s of
        Some d \<Rightarrow>
          try_catch
            (seq (invoke (fails YDoc) (YDocDestroy d))
                 (assign (\<lambda>s. s\<lparr>ydocRef := None\<rparr>)))
            (emit (ConsoleWarn YDoc)) s
      | None \<Rightarrow> (Normal, s))"

definition cleanupAll :: "(component \<Rightarrow> bool) \<Rightarrow> stmt" where
  "cleanupAll fails =
     seq (emit ConsoleLog)
    (seq (cleanup_awareness fails)
    (seq (cleanup_cursor fails)
    (seq (cleanup_binding fails)
    (seq (cleanup_provider fails)
    (seq (cleanup_ydoc fails)
    (seq (assign (\<lambda>s. s\<lparr>modelRef := None\<rparr>))
         (emit ConsoleLog)))))))"

section \<open>The effect of useYjs (useYjs.ts, lines 147-314)\<close>

text \<open>
  An activation is one run of the effect: its closure variables. \<open>mounted\<close> is the
  closure's flag, which the effect's cleanup function clears. What the environment
  hands to the effect (fresh objects, the model Monaco already has for a URI, whether the
  provider is already synced) is a \<open>setup_env\<close>.
\<close>

record activation =
  mounted :: bool
  act_file :: jsstring
  act_ydoc :: handle
  act_provider :: provider
  act_model :: "handle option"

record setup_env =
  fresh_ydoc :: handle
  fresh_provider :: provider
  getModel :: "jsstring \<Rightarrow> handle option"
  fresh_model :: handle
  provider_synced :: bool
  fresh_awareness_listener :: handle
  fresh_cursor_listener :: handle

definition empty_ydoc :: ydoc where
  "empty_ydoc = \<lparr>ytext = [], ytext_length = 0, ymap = Map.empty\<rparr>"

definition model_uri :: "jsstring \<Rightarrow> jsstring \<Rightarrow> jsstring \<Rightarrow> jsstring" where
  "model_uri projectId currentBranch activeFile =
     js ''inmemory:///'' @ projectId @ js ''/'' @ currentBranch @ js ''/'' @ activeFile"

definition chosen_model :: "setup_env \<Rightarrow> jsstring \<Rightarrow> handle" where
  "chosen_model env uri = (case getModel env uri of Some m \<Rightarrow> m | None \<Rightarrow> fresh_model env)"

definition new_activation :: "setup_env \<Rightarrow> jsstring \<Rightarrow> jsstring \<Rightarrow> jsstring \<Rightarrow> activation" where
  "new_activation env projectId currentBranch activeFile =
     \<lparr>mounted = True, act_file = activeFile, act_ydoc = fresh_ydoc env,
      act_provider = fresh_provider env,
      act_model = Some (chosen_model env (model_uri projectId currentBranch activeFile))\<rparr>"

definition guard_stale :: "activation \<Rightarrow> hook_state \<Rightarrow> bool" where
  \<comment> \<open>\<^verbatim>\<open>!mounted || !model || model.isDisposed()\<close>\<close>
  "guard_stale a s =
     (\<not> mounted a \<or> (case act_model a of None \<Rightarrow> True | Some m \<Rightarrow> isDisposed s m))"

definition ytext_insert :: "insert_value \<Rightarrow> handle \<Rightarrow> jsvalue \<Rightarrow> stmt" where
  \<comment> \<open>\<^verbatim>\<open>ytext.insert(0, v)\<close>. A string goes in front of the text. \<^verbatim>\<open>Y.Text.insert\<close> is
      declared for strings; what it does with any other value (whether it throws, what the
      document holds afterwards) is the library's, given by \<open>lib\<close>\<close>
  "ytext_insert lib d v s =
     (let doc = ydocs s d;
          s' = s\<lparr>trace := trace s @ [YTextInsert d 0 v]\<rparr>
      in case v of
           Str txt \<Rightarrow>
             (Normal, s'\<lparr>ydocs := (ydocs s)(d := doc\<lparr>ytext := txt @ ytext doc,
                         ytext_length := length txt + ytext_length doc\<rparr>)\<rparr>)
         | _ \<Rightarrow> (fst (lib v doc), s'\<lparr>ydocs := (ydocs s)(d := snd (lib v doc))\<rparr>))"

definition ymap_set :: "handle \<Rightarrow> string \<Rightarrow> bool \<Rightarrow> stmt" where
  "ymap_set d k v s =
     (Normal, s\<lparr>trace := trace s @ [YMapSet d k v],
                ydocs := (ydocs s)(d := (ydocs s d)\<lparr>ymap := (ymap (ydocs s d))(k \<mapsto> v)\<rparr>)\<rparr>)"

definition files_write :: "jsstring \<Rightarrow> jsstring \<Rightarrow> stmt" where
  \<comment> \<open>the statement \<^verbatim>\<open>files[f] = txt\<close>\<close>
  "files_write f txt s =
     (Normal, s\<lparr>trace := trace s @ [FilesWrite f txt], files := files_set (files s) f txt\<rparr>)"

definition seed_or_sync :: "insert_value \<Rightarrow> activation \<Rightarrow> stmt" where
  \<comment> \<open>lines 207-228: seed the document from the snapshot, or mirror it into the snapshot\<close>
  "seed_or_sync lib a s =
     (let d = ydocs s (act_ydoc a);
          isInitialized = (ymap d ''initialized'' = Some True);
          hasContent = (0 < ytext_length d)
      in if \<not> isInitialized \<and> \<not> hasContent then
           (let initialContent = or_empty (files_get (files s) (act_file a))
            in seq (if truthy initialContent
                    then seq (emit ConsoleLog) (ytext_insert lib (act_ydoc a) initialContent)
                    else assign id)
                   (ymap_set (act_ydoc a) ''initialized'' True) s)
         else
           (let yjsContent = ytext d
            in if Str yjsContent \<noteq> files_get (files s) (act_file a)
               then seq (emit ConsoleLog) (files_write (act_file a) yjsContent) s
               else (Normal, s)))"

definition initBinding_start :: "activation \<Rightarrow> stmt" where
  \<comment> \<open>initBinding up to its \<^verbatim>\<open>await import("y-monaco")\<close>\<close>
  "initBinding_start a s = (if guard_stale a s then (Normal, s) else emit ImportYMonaco s)"

datatype import_result = Resolved | Rejected

definition initBinding_resume ::
    "insert_value \<Rightarrow> import_result \<Rightarrow> bool \<Rightarrow> handle \<Rightarrow> activation \<Rightarrow> stmt" where
  \<comment> \<open>initBinding from the moment the import settles; \<open>ctor_throws\<close> says whether
      \<^verbatim>\<open>new MonacoBinding\<close> raises, \<open>b\<close> is the binding it returns otherwise, \<open>lib\<close> is
      what \<^verbatim>\<open>Y.Text.insert\<close> does with a value that is not a string\<close>
  "initBinding_resume lib imp ctor_throws b a =
     try_catch
       (case imp of
          Rejected \<Rightarrow> (\<lambda>s. (Throw, s))
        | Resolved \<Rightarrow> (\<lambda>s.
            if guard_stale a s then (Normal, s)
            else seq (seed_or_sync lib a)
                (seq (invoke ctor_throws
                        (NewBinding b (act_ydoc a) (provider_id (act_provider a))))
                (seq (assign (\<lambda>s. s\<lparr>bindingRef := Some b\<rparr>))
                (seq (emit (YTextObserve (act_ydoc a)))
                     (emit ConsoleLog)))) s))
       (emit ConsoleError)"

definition observer :: "activation \<Rightarrow> hook_state \<Rightarrow> hook_state" where
  \<comment> \<open>the callback given to \<^verbatim>\<open>ytext.observe\<close>\<close>
  "observer a s =
     (if \<not> mounted a \<or> act_file a = [] then s
      else s\<lparr>files := files_set (files s) (act_file a) (ytext (ydocs s (act_ydoc a)))\<rparr>)"

definition attach_model :: "setup_env \<Rightarrow> jsstring \<Rightarrow> jsstring \<Rightarrow> stmt" where
  \<comment> \<open>lines 178-197\<close>
  "attach_model env uri activeFile s =
     (let s1 = (case getModel env uri of
                  None \<Rightarrow>
                    (let content = or_empty (files_get (files s) activeFile)
                     in s\<lparr>trace := trace s @ [CreateModel (fresh_model env) content uri, ConsoleLog],
                           isDisposed := (isDisposed s)(fresh_model env := False)\<rparr>)
                | Some m \<Rightarrow> s\<lparr>trace := trace s @ [ConsoleLog]\<rparr>);
          m = chosen_model env uri;
          s2 = s1\<lparr>modelRef := Some m\<rparr>
      in if \<not> isDisposed s2 m then emit (SetModel m) s2 else (Normal, s2))"

definition activate :: "setup_env \<Rightarrow> jsstring \<Rightarrow> jsstring \<Rightarrow> jsstring \<Rightarrow> bool \<Rightarrow> stmt" where
  \<comment> \<open>lines 156-296: everything the effect constructs, in the source's order\<close>
  "activate env projectId currentBranch activeFile has_user =
     (let a = new_activation env projectId currentBranch activeFile;
          y = fresh_ydoc env;
          p = fresh_provider env
      in seq (emit (NewYDoc y))
        (seq (assign (\<lambda>s. s\<lparr>ydocs := (ydocs s)(y := empty_ydoc), ydocRef := Some y\<rparr>))
        (seq (emit ConsoleLog)
        (seq (emit (NewProvider (provider_id p) (roomName projectId currentBranch activeFile) y))
        (seq (assign (\<lambda>s. s\<lparr>providerRef := Some p\<rparr>))
        (seq (attach_model env (model_uri projectId currentBranch activeFile) activeFile)
        (seq (if provider_synced env then initBinding_start a
              else emit (ProviderOnSynced (provider_id p)))
        (seq (if has_user then emit (SetLocalUser (provider_id p)) else assign id)
        (seq (emit (AwarenessOn (provider_id p) (fresh_awareness_listener env)))
        (seq (assign (\<lambda>s. s\<lparr>awarenessListenerRef := Some (fresh_awareness_listener env)\<rparr>))
        (seq (emit (OnDidChangeCursorPosition (fresh_cursor_listener env)))
             (assign (\<lambda>s. s\<lparr>cursorListenerRef := Some (fresh_cursor_listener env)\<rparr>)))))))))))))"

definition useEffect_setup ::
    "setup_env \<Rightarrow> (component \<Rightarrow> bool) \<Rightarrow> jsstring \<Rightarrow> jsstring \<Rightarrow> jsstring \<Rightarrow> bool \<Rightarrow> stmt" where
  \<comment> \<open>the effect body once \<^verbatim>\<open>activeFile\<close>, \<^verbatim>\<open>monaco\<close> and \<^verbatim>\<open>editor\<close> are there:
      log, \<^verbatim>\<open>cleanupAll()\<close>, then the construction\<close>
  "useEffect_setup env fails projectId currentBranch activeFile has_user =
     seq (emit ConsoleLog)
    (seq (cleanupAll fails)
         (activate env projectId currentBranch activeFile has_user))"

definition useEffect ::
    "setup_env \<Rightarrow> (component \<Rightarrow> bool) \<Rightarrow> bool \<Rightarrow> bool \<Rightarrow> jsstring \<Rightarrow> jsstring \<Rightarrow> jsstring
       \<Rightarrow> bool \<Rightarrow> hook_state \<Rightarrow> activation option \<times> outcome \<times> hook_state" where
  \<comment> \<open>line 148: without a file, Monaco or an editor the effect does nothing\<close>
  "useEffect env fails has_monaco has_editor projectId currentBranch activeFile has_user s =
     (if activeFile = [] \<or> \<not> has_monaco \<or> \<not> has_editor then (None, Normal, s)
      else (Some (new_activation env projectId currentBranch activeFile),
            useEffect_setup env fails projectId currentBranch activeFile has_user s))"

definition effect_cleanup ::
    "(component \<Rightarrow> bool) \<Rightarrow> activation \<Rightarrow> hook_state \<Rightarrow> activation \<times> outcome \<times> hook_state" where
  \<comment> \<open>lines 299-303: the function the effect returns\<close>
  "effect_cleanup fails a s =
     (a\<lparr>mounted := False\<rparr>, seq (emit ConsoleLog) (cleanupAll fails) s)"

section \<open>Remote cursor decorations (useYjs.ts, lines 33-81)\<close>

fun number_str :: "nat \<Rightarrow> jsstring" where
  \<comment> \<open>how a template literal renders a non-negative integer: its decimal digits\<close>
  "number_str n =
     (if n < 10 then [of_nat (48 + n)]
      else number_str (n div 10) @ [of_nat (48 + n mod 10)])"

definition display_name :: "PresenceUser \<Rightarrow> jsstring" where
  \<comment> \<open>\<^verbatim>\<open>s.user?.name ?? s.user?.email ?? "user"\<close>\<close>
  "display_name st =
     (case user st of
        None \<Rightarrow> js ''user''
      | Some u \<Rightarrow> (case name u of Some n \<Rightarrow> n
                  | None \<Rightarrow> (case email u of Some e \<Rightarrow> e | None \<Rightarrow> js ''user'')))"

definition cursor_decoration :: "PresenceUser \<Rightarrow> cursor \<Rightarrow> decoration" where
  "cursor_decoration st c =
     (let l = (case line c of Some l \<Rightarrow> l | None \<Rightarrow> 1);
          col = (case column c of Some k \<Rightarrow> k | None \<Rightarrow> 1)
      in \<lparr>range = (l, col, l, col), isWholeLine = False,
          hoverMessage = js ''**'' @ display_name st @ js ''**'',
          inlineClassName = js ''remoteCursor_'' @ number_str (clientId st)\<rparr>)"

definition push_cursor :: "nat \<Rightarrow> decoration list \<Rightarrow> PresenceUser \<Rightarrow> decoration list" where
  \<comment> \<open>the body of \<^verbatim>\<open>states.forEach\<close>, lines 39-55\<close>
  "push_cursor myClientId decs st =
     (case cursor st of
        None \<Rightarrow> decs
      | Some c \<Rightarrow> if clientId st = myClientId then decs else decs @ [cursor_decoration st c])"

definition style_rule :: "PresenceUser \<Rightarrow> (nat \<times> jsstring) option" where
  \<comment> \<open>lines 70-77: the client id and colour a CSS rule is rendered from, none without a user\<close>
  "style_rule st =
     (case user st of
        None \<Rightarrow> None
      | Some u \<Rightarrow> Some (clientId st, case color u of Some c \<Rightarrow> c | None \<Rightarrow> js ''#888''))"

definition updateRemoteCursorDecorations ::
    "bool \<Rightarrow> bool \<Rightarrow> (jsstring list \<Rightarrow> decoration list \<Rightarrow> jsstring list) \<Rightarrow> PresenceUser list
       \<Rightarrow> hook_state \<Rightarrow> hook_state" where
  \<comment> \<open>\<open>deltaDecorations\<close> gives the ids the editor returns for a call\<close>
  "updateRemoteCursorDecorations has_editor has_monaco deltaDecorations states s =
     (case providerRef s of
        None \<Rightarrow> s
      | Some p \<Rightarrow>
          if \<not> has_editor \<or> \<not> has_monaco then s
          else
            (let myClientId = clientID p;
                 decs = foldl (push_cursor myClientId) [] states;
                 s1 = s\<lparr>trace := trace s @ [DeltaDecorations (decorationsRef s) decs],
                        decorationsRef := deltaDecorations (decorationsRef s) decs\<rparr>;
                 s2 = (case styleEl s1 of
                         None \<Rightarrow> s1\<lparr>trace := trace s1 @ [CreateStyleElement], styleEl := Some []\<rparr>
                       | Some _ \<Rightarrow> s1)
             in s2\<lparr>styleEl := Some (map style_rule states)\<rparr>))"

section \<open>Reading a trace\<close>

definition new_events :: "hook_state \<Rightarrow> hook_state \<Rightarrow> event list" where
  \<comment> \<open>what a run from \<open>s\<close> to \<open>s'\<close> appended to the trace\<close>
  "new_events s s' = drop (length (trace s)) (trace s')"

fun is_teardown :: "event \<Rightarrow> bool" where
  "is_teardown (AwarenessOff _ _) = True"
| "is_teardown (CursorDispose _) = True"
| "is_teardown (BindingDestroy _) = True"
| "is_teardown (ProviderDestroy _) = True"
| "is_teardown (YDocDestroy _) = True"
| "is_teardown _ = False"

fun is_construct :: "event \<Rightarrow> bool" where
  "is_construct (NewYDoc _) = True"
| "is_construct (NewProvider _ _ _) = True"
| "is_construct (CreateModel _ _ _) = True"
| "is_construct (NewBinding _ _ _) = True"
| "is_construct (AwarenessOn _ _) = True"
| "is_construct (OnDidChangeCursorPosition _) = True"
| "is_construct _ = False"


fun torn_down :: "event \<Rightarrow> component option" where
  "torn_down (AwarenessOff _ _) = Some AwarenessListener"
| "torn_down (CursorDispose _) = Some CursorListener"
| "torn_down (BindingDestroy _) = Some Binding"
| "torn_down (ProviderDestroy _) = Some Provider"
| "torn_down (YDocDestroy _) = Some YDoc"
| "torn_down _ = None"

definition held :: "hook_state \<Rightarrow> component \<Rightarrow> bool" where
  \<comment> \<open>the condition under which cleanupAll enters the block of a component\<close>
  "held s c =
     (case c of
        AwarenessListener \<Rightarrow> awarenessListenerRef s \<noteq> None \<and> providerRef s \<noteq> None
      | CursorListener \<Rightarrow> cursorListenerRef s \<noteq> None
      | Binding \<Rightarrow> bindingRef s \<noteq> None
      | Provider \<Rightarrow> providerRef s \<noteq> None
      | YDoc \<Rightarrow> ydocRef s \<noteq> None)"

definition initial_state :: hook_state where
  \<comment> \<open>the hook before its first effect: every ref null, no file, no style element\<close>
  "initial_state =
     \<lparr>decorationsRef = [], providerRef = None, ydocRef = None, bindingRef = None,
      modelRef = None, cursorListenerRef = None, awarenessListenerRef = None,
      files = Map.empty, ydocs = (\<lambda>_. empty_ydoc), isDisposed = (\<lambda>_. False),
      styleEl = None, trace = []\<rparr>"

definition example_env :: setup_env where
  "example_env =
     \<lparr>fresh_ydoc = 1, fresh_provider = \<lparr>provider_id = 2, clientID = 7\<rparr>,
      getModel = (\<lambda>_. None), fresh_model = 4, provider_synced = True,
      fresh_awareness_listener = 5, fresh_cursor_listener = 6\<rparr>"

definition example_lib :: insert_value where
  \<comment> \<open>a library that takes any value and leaves the characters of the text as they are\<close>
  "example_lib = (\<lambda>v doc. (Normal, doc))"

definition live_state :: hook_state where
  \<comment> \<open>a hook with every component alive: the effect has run for project \<^verbatim>\<open>p1\<close>, branch
      \<^verbatim>\<open>main\<close>, file \<^verbatim>\<open>a.ts\<close>, and the binding (handle 3) has been created\<close>
  "live_state =
     snd (initBinding_resume example_lib Resolved False 3
            (new_activation example_env (js ''p1'') (js ''main'') (js ''a.ts''))
            (snd (useEffect_setup example_env (\<lambda>_. False) (js ''p1'') (js ''main'')
                    (js ''a.ts'') True initial_state)))"

section \<open>Example replicas\<close>

definition stale_example :: activation where
  \<comment> \<open>an activation whose cleanup function has run\<close>
  "stale_example = (new_activation example_env (js ''p1'') (js ''main'') (js ''a.ts''))\<lparr>mounted := False\<rparr>"








definition example_states :: "PresenceUser list" where
  \<comment> \<open>the local client 7 with a cursor, client 12 with a cursor, client 13 without\<close>
  "example_states =
     [\<lparr>clientId = 7, user = Some \<lparr>name = Some (js ''me''), email = None, color = None\<rparr>,
        cursor = Some \<lparr>line = Some 1, column = Some 1\<rparr>\<rparr>,
      \<lparr>clientId = 12, user = Some \<lparr>name = None, email = Some (js ''ann@x.org''),
        color = Some (js ''#ff0000'')\<rparr>, cursor = Some \<lparr>line = Some 3, column = None\<rparr>\<rparr>,
      \<lparr>clientId = 13, user = None, cursor = None\<rparr>]"

section \<open>Closed forms used in the proofs\<close>

definition kept :: "bool \<Rightarrow> 'a option \<Rightarrow> 'a option" where
  \<comment> \<open>a ref after its block: untouched when the teardown call threw, null otherwise\<close>
  "kept throws r = (if throws then r else None)"

definition block_events :: "bool \<Rightarrow> event \<Rightarrow> component \<Rightarrow> event list" where
  "block_events throws e c = e # (if throws then [ConsoleWarn c] else [])"

definition awareness_events :: "bool \<Rightarrow> handle option \<Rightarrow> provider option \<Rightarrow> event list" where
  "awareness_events throws l p =
     (case (l, p) of
        (Some l, Some p) \<Rightarrow> block_events throws (AwarenessOff (provider_id p) l) AwarenessListener
      | _ \<Rightarrow> [])"

definition cleanup_events :: "(component \<Rightarrow> bool) \<Rightarrow> hook_state \<Rightarrow> event list" where
  "cleanup_events fails s =
     awareness_events (fails AwarenessListener) (awarenessListenerRef s) (providerRef s)
     @ (case cursorListenerRef s of
          Some l \<Rightarrow> block_events (fails CursorListener) (CursorDispose l) CursorListener
        | None \<Rightarrow> [])
     @ (case bindingRef s of
          Some b \<Rightarrow> block_events (fails Binding) (BindingDestroy b) Binding
        | None \<Rightarrow> [])
     @ (case providerRef s of
          Some p \<Rightarrow> block_events (fails Provider) (ProviderDestroy (provider_id p)) Provider
        | None \<Rightarrow> [])
     @ (case ydocRef s of
          Some d \<Rightarrow> block_events (fails YDoc) (YDocDestroy d) YDoc
        | None \<Rightarrow> [])"

definition constructs_only :: "stmt \<Rightarrow> bool" where
  \<comment> \<open>never throws, keeps the trace it finds and appends no teardown call\<close>
  "constructs_only st =
     (\<forall>s. fst (st s) = Normal
        \<and> take (length (trace s)) (trace (snd (st s))) = trace s
        \<and> filter is_teardown (new_events s (snd (st s))) = [])"

section \<open>Room name: proofs\<close>

lemma replace_g_Nil: "replace_g cls r [] = []"
  by (simp add: replace_g_def)

lemma replace_g_Cons:
  "replace_g cls r (c # s) = (if cls c then r else [c]) @ replace_g cls r s"
  by (simp add: replace_g_def)

lemma replace_g_append:
  "replace_g cls r (xs @ ys) = replace_g cls r xs @ replace_g cls r ys"
  by (simp add: replace_g_def)

lemma dashes_no_space: "replace_g is_space r (js ''--'') = js ''--''"
  by (simp add: replace_g_def js_def is_space_def)

lemma dashes_no_dot: "replace_g is_dot r (js ''--'') = js ''--''"
  by (simp add: replace_g_def js_def is_dot_def)

lemma safeBranch_spec: "safeBranch b = escape_branch_spec b"
proof (induction b)
  case Nil
  show ?case by (simp add: safeBranch_def escape_branch_spec_def replace_g_def)
next
  case (Cons c b)
  have step: "safeBranch (c # b) =
      replace_g is_space (js ''%20'') (if is_sep c then js ''--'' else [c]) @ safeBranch b"
    by (simp only: safeBranch_def replace_g_Cons replace_g_append)
  have head: "replace_g is_space (js ''%20'') (if is_sep c then js ''--'' else [c]) =
      (if is_sep c then js ''--'' else if is_space c then js ''%20'' else [c])"
    by (simp add: dashes_no_space replace_g_Cons replace_g_Nil)
  show ?case
    by (simp add: step head Cons.IH) (simp add: escape_branch_spec_def)
qed

lemma safeFile_spec: "safeFile f = escape_file_spec f"
proof (induction f)
  case Nil
  show ?case by (simp add: safeFile_def escape_file_spec_def replace_g_def)
next
  case (Cons c f)
  have step: "safeFile (c # f) =
      replace_g is_dot (js ''-'') (if is_sep c then js ''--'' else [c]) @ safeFile f"
    by (simp only: safeFile_def replace_g_Cons replace_g_append)
  have head: "replace_g is_dot (js ''-'') (if is_sep c then js ''--'' else [c]) =
      (if is_sep c then js ''--'' else if is_dot c then js ''-'' else [c])"
    by (simp add: dashes_no_dot replace_g_Cons replace_g_Nil)
  show ?case
    by (simp add: step head Cons.IH) (simp add: escape_file_spec_def)
qed

text \<open>
  Claim C3. For every project id, branch name and file path, the room name the hook
  computes is the project id, a dash, the escaped branch name, two dashes and the
  escaped file path, where escaping turns each path separator (slash or backslash)
  into two dashes, each whitespace character of a branch name into \<^verbatim>\<open>%20\<close>, and each dot of
  a file path into a dash.
\<close>

theorem roomName_wire_format:
  "roomName projectId currentBranch activeFile =
     projectId @ js ''-'' @ escape_branch_spec currentBranch @ js ''--''
       @ escape_file_spec activeFile"
  by (simp add: roomName_def safeBranch_spec safeFile_spec)

theorem roomName_wire_format_witness:
  "roomName (js ''p1'') (js ''my feat/x'') (js ''src/index.ts'')
     = js ''p1-my%20feat--x--src--index-ts''"
  using roomName_wire_format [of "js ''p1''" "js ''my feat/x''" "js ''src/index.ts''"]
  by (simp add: escape_branch_spec_def escape_file_spec_def js_def
      is_sep_def is_space_def is_dot_def)

text \<open>
  Claim C4, as the specification states it: any two different triples of project id,
  branch name and file path have different room names. The escaping loses information:
  the branch names \<^verbatim>\<open>a/b\<close> and \<^verbatim>\<open>a--b\<close> of one project and file share a room name.
\<close>

theorem roomName_collision:
  "(js ''p'', js ''a/b'', js ''f.ts'') \<noteq> (js ''p'', js ''a--b'', js ''f.ts'')
   \<and> roomName (js ''p'') (js ''a/b'') (js ''f.ts'')
       = roomName (js ''p'') (js ''a--b'') (js ''f.ts'')"
  by (simp add: roomName_def safeBranch_def safeFile_def replace_g_def js_def
      is_sep_def is_space_def is_dot_def)

text \<open>
  Claim C4, amended. The room name is a function of its three arguments; for one project
  and one file, two branch names share a room name exactly when their escaped forms are
  equal; and the branch names \<^verbatim>\<open>feat/x\<close> and \<^verbatim>\<open>feat-x\<close> never share one.
\<close>

theorem roomName_branch_distinct:
  "roomName p b f = roomName p b f
   \<and> ((roomName p b1 f = roomName p b2 f) = (safeBranch b1 = safeBranch b2))
   \<and> roomName p (js ''feat/x'') f \<noteq> roomName p (js ''feat-x'') f"
  by (simp add: roomName_def)
    (simp add: safeBranch_def replace_g_def js_def is_sep_def is_space_def)

section \<open>cleanupAll: closed form\<close>

lemma block_eq:
  "try_catch (seq (invoke throws e) (assign clear)) (emit (ConsoleWarn c)) s
     = (Normal, if throws then s\<lparr>trace := trace s @ block_events throws e c\<rparr>
                else clear (s\<lparr>trace := trace s @ block_events throws e c\<rparr>))"
  by (simp add: try_catch_def seq_def invoke_def assign_def emit_def block_events_def)

lemma kept_simps:
  "kept True r = r" "kept False r = None" "kept t None = None"
  by (simp_all add: kept_def)

lemma cleanup_awareness_eq:
  "cleanup_awareness fails s = (Normal,
     s\<lparr>awarenessListenerRef :=
          kept (fails AwarenessListener \<or> providerRef s = None) (awarenessListenerRef s),
       trace := trace s @
          awareness_events (fails AwarenessListener) (awarenessListenerRef s) (providerRef s)\<rparr>)"
  by (simp add: cleanup_awareness_def block_eq kept_def awareness_events_def split: option.splits)

lemma cleanup_cursor_eq:
  "cleanup_cursor fails s = (Normal,
     s\<lparr>cursorListenerRef := kept (fails CursorListener) (cursorListenerRef s),
       trace := trace s @
          (case cursorListenerRef s of
             Some l \<Rightarrow> block_events (fails CursorListener) (CursorDispose l) CursorListener
           | None \<Rightarrow> [])\<rparr>)"
  by (simp add: cleanup_cursor_def block_eq kept_def split: option.splits)

lemma cleanup_binding_eq:
  "cleanup_binding fails s = (Normal,
     s\<lparr>bindingRef := kept (fails Binding) (bindingRef s),
       trace := trace s @
          (case bindingRef s of
             Some b \<Rightarrow> block_events (fails Binding) (BindingDestroy b) Binding
           | None \<Rightarrow> [])\<rparr>)"
  by (simp add: cleanup_binding_def block_eq kept_def split: option.splits)

lemma cleanup_provider_eq:
  "cleanup_provider fails s = (Normal,
     s\<lparr>providerRef := kept (fails Provider) (providerRef s),
       trace := trace s @
          (case providerRef s of
             Some p \<Rightarrow> block_events (fails Provider) (ProviderDestroy (provider_id p)) Provider
           | None \<Rightarrow> [])\<rparr>)"
  by (simp add: cleanup_provider_def block_eq kept_def split: option.splits)

lemma cleanup_ydoc_eq:
  "cleanup_ydoc fails s = (Normal,
     s\<lparr>ydocRef := kept (fails YDoc) (ydocRef s),
       trace := trace s @
          (case ydocRef s of
             Some d \<Rightarrow> block_events (fails YDoc) (YDocDestroy d) YDoc
           | None \<Rightarrow> [])\<rparr>)"
  by (simp add: cleanup_ydoc_def block_eq kept_def split: option.splits)

lemmas cleanup_eqs = cleanup_awareness_eq cleanup_cursor_eq cleanup_binding_eq
  cleanup_provider_eq cleanup_ydoc_eq

lemma cleanupAll_eq:
  "cleanupAll fails s = (Normal,
     s\<lparr>awarenessListenerRef :=
          kept (fails AwarenessListener \<or> providerRef s = None) (awarenessListenerRef s),
       cursorListenerRef := kept (fails CursorListener) (cursorListenerRef s),
       bindingRef := kept (fails Binding) (bindingRef s),
       providerRef := kept (fails Provider) (providerRef s),
       ydocRef := kept (fails YDoc) (ydocRef s),
       modelRef := None,
       trace := trace s @ [ConsoleLog] @ cleanup_events fails s @ [ConsoleLog]\<rparr>)"
  by (simp add: cleanupAll_def seq_def cleanup_eqs emit_def assign_def cleanup_events_def)

lemma cleanupAll_never_throws: "fst (cleanupAll fails s) = Normal"
  by (simp add: cleanupAll_eq)

section \<open>A hook with every component alive\<close>

lemmas stmt_defs = seq_def emit_def assign_def invoke_def try_catch_def

lemma setup_state:
  "useEffect_setup example_env (\<lambda>_. False) (js ''p1'') (js ''main'') (js ''a.ts'') True initial_state
   = (Normal, initial_state\<lparr>
        providerRef := Some \<lparr>provider_id = 2, clientID = 7\<rparr>, ydocRef := Some 1,
        modelRef := Some 4, cursorListenerRef := Some 6, awarenessListenerRef := Some 5,
        ydocs := (\<lambda>_. empty_ydoc),
        trace := [ConsoleLog, ConsoleLog, ConsoleLog, NewYDoc 1, ConsoleLog,
           NewProvider 2 (roomName (js ''p1'') (js ''main'') (js ''a.ts'')) 1,
           CreateModel 4 (Str []) (model_uri (js ''p1'') (js ''main'') (js ''a.ts'')),
           ConsoleLog, SetModel 4, ImportYMonaco, SetLocalUser 2, AwarenessOn 2 5,
           OnDidChangeCursorPosition 6]\<rparr>)"
  by (simp add: useEffect_setup_def activate_def stmt_defs cleanupAll_eq attach_model_def
      initBinding_start_def Let_def new_activation_def guard_stale_def chosen_model_def
      example_env_def initial_state_def cleanup_events_def awareness_events_def kept_def
      files_get_def or_empty_def proto_names_def js_def fun_eq_iff)

lemma live_state_refs:
  "providerRef live_state = Some \<lparr>provider_id = 2, clientID = 7\<rparr>"
  "ydocRef live_state = Some 1"
  "bindingRef live_state = Some 3"
  "modelRef live_state = Some 4"
  "cursorListenerRef live_state = Some 6"
  "awarenessListenerRef live_state = Some 5"
  unfolding live_state_def setup_state
  by (simp_all add: initBinding_resume_def stmt_defs guard_stale_def
      new_activation_def chosen_model_def example_env_def initial_state_def seed_or_sync_def
      ymap_set_def Let_def empty_ydoc_def files_get_def or_empty_def truthy_def
      proto_names_def js_def)

lemma cleanupAll_new_events:
  "new_events s (snd (cleanupAll fails s)) = [ConsoleLog] @ cleanup_events fails s @ [ConsoleLog]"
  by (simp add: cleanupAll_eq new_events_def)

section \<open>cleanupAll: what holds for every run\<close>

lemma cleanupAll_reaches_held:
  "List.map_filter torn_down (new_events s (snd (cleanupAll fails s)))
     = filter (held s) [AwarenessListener, CursorListener, Binding, Provider, YDoc]"
  by (simp add: cleanupAll_new_events cleanup_events_def awareness_events_def block_events_def
      List.map_filter_def held_def split: option.splits)

lemma cleanupAll_refs_null:
  assumes "\<forall>c. \<not> fails c" and "awarenessListenerRef s \<noteq> None \<longrightarrow> providerRef s \<noteq> None"
  shows "cleanupAll fails s = (Normal, s\<lparr>awarenessListenerRef := None, cursorListenerRef := None,
           bindingRef := None, providerRef := None, ydocRef := None, modelRef := None,
           trace := trace s @ [ConsoleLog] @ cleanup_events fails s @ [ConsoleLog]\<rparr>)"
  using assms by (auto simp add: cleanupAll_eq kept_def)

lemma cleanupAll_idempotent_without_throw:
  assumes "\<forall>c. \<not> fails c" and "awarenessListenerRef s \<noteq> None \<longrightarrow> providerRef s \<noteq> None"
  shows "cleanupAll fails' (snd (cleanupAll fails s))
     = (Normal, (snd (cleanupAll fails s))
          \<lparr>trace := trace (snd (cleanupAll fails s)) @ [ConsoleLog, ConsoleLog]\<rparr>)"
  by (simp add: cleanupAll_refs_null [OF assms])
    (simp add: cleanupAll_eq kept_def cleanup_events_def awareness_events_def)

section \<open>cleanupAll when a teardown call throws\<close>

text \<open>
  Claim C6 says that after cleanupAll returns every component reference is null, also when
  a teardown call threw. The source clears each ref inside the \<^verbatim>\<open>try\<close>, after the call, so
  a call that throws skips the assignment. Here \<^verbatim>\<open>bindingRef.current.destroy()\<close> throws on
  a hook with every component alive: cleanupAll returns normally and goes on to destroy the
  provider and the document, but \<^verbatim>\<open>bindingRef\<close> still holds the binding.
\<close>

theorem cleanupAll_throw_keeps_binding:
  "fst (cleanupAll (\<lambda>c. c = Binding) live_state) = Normal
   \<and> bindingRef (snd (cleanupAll (\<lambda>c. c = Binding) live_state)) = Some 3
   \<and> new_events live_state (snd (cleanupAll (\<lambda>c. c = Binding) live_state))
       = [ConsoleLog, AwarenessOff 2 5, CursorDispose 6, BindingDestroy 3, ConsoleWarn Binding,
          ProviderDestroy 2, YDocDestroy 1, ConsoleLog]"
  by (simp add: cleanupAll_new_events)
    (simp add: cleanupAll_eq live_state_refs cleanup_events_def awareness_events_def
      block_events_def kept_def)

text \<open>
  Claim C7 says that a second cleanupAll with no setup in between invokes no destroy,
  dispose or off operation and changes nothing. After the run above, in which the
  binding's destroy threw, \<^verbatim>\<open>bindingRef\<close> is not null, and the second run calls destroy on
  the same binding again and only then clears the ref.
\<close>

theorem cleanupAll_twice_destroys_again:
  "bindingRef (snd (cleanupAll (\<lambda>c. c = Binding) live_state)) \<noteq> None
   \<and> new_events (snd (cleanupAll (\<lambda>c. c = Binding) live_state))
        (snd (cleanupAll (\<lambda>_. False) (snd (cleanupAll (\<lambda>c. c = Binding) live_state))))
       = [ConsoleLog, BindingDestroy 3, ConsoleLog]
   \<and> bindingRef (snd (cleanupAll (\<lambda>_. False) (snd (cleanupAll (\<lambda>c. c = Binding) live_state))))
       = None"
  by (simp add: cleanupAll_new_events)
    (simp add: cleanupAll_eq live_state_refs cleanup_events_def awareness_events_def
      block_events_def kept_def)

section \<open>The effect: teardown before construction\<close>

lemma useEffect_setup_split:
  "useEffect_setup env fails p b f u s
     = activate env p b f u (snd (seq (emit ConsoleLog) (cleanupAll fails) s))"
  by (simp add: useEffect_setup_def seq_def emit_def cleanupAll_eq)

lemma constructs_only_emit: "\<not> is_teardown e \<Longrightarrow> constructs_only (emit e)"
  by (simp add: constructs_only_def emit_def new_events_def)

lemma constructs_only_assign: "(\<And>s. trace (f s) = trace s) \<Longrightarrow> constructs_only (assign f)"
  by (simp add: constructs_only_def assign_def new_events_def)

lemma constructs_only_seq:
  assumes a: "constructs_only a" and b: "constructs_only b"
  shows "constructs_only (seq a b)"
  unfolding constructs_only_def
proof (intro allI)
  fix s
  obtain s1 where r1: "a s = (Normal, s1)"
    using a by (metis constructs_only_def prod.collapse)
  have p1: "take (length (trace s)) (trace s1) = trace s"
    and t1: "filter is_teardown (new_events s s1) = []"
    using a r1 by (auto simp: constructs_only_def dest: spec [of _ s])
  obtain s2 where r2: "b s1 = (Normal, s2)"
    using b by (metis constructs_only_def prod.collapse)
  have p2: "take (length (trace s1)) (trace s2) = trace s1"
    and t2: "filter is_teardown (new_events s1 s2) = []"
    using b r2 by (auto simp: constructs_only_def dest: spec [of _ s1])
  have res: "seq a b s = (Normal, s2)"
    by (simp add: seq_def r1 r2)
  obtain e1 where e1: "trace s1 = trace s @ e1"
    using p1 by (metis append_take_drop_id)
  obtain e2 where e2: "trace s2 = trace s1 @ e2"
    using p2 by (metis append_take_drop_id)
  have "filter is_teardown e1 = []" using t1 by (simp add: new_events_def e1)
  moreover have "filter is_teardown e2 = []" using t2 by (simp add: new_events_def e2)
  ultimately show "fst (seq a b s) = Normal
        \<and> take (length (trace s)) (trace (snd (seq a b s))) = trace s
        \<and> filter is_teardown (new_events s (snd (seq a b s))) = []"
    by (simp add: res new_events_def e1 e2)
qed

lemma constructs_only_attach_model: "constructs_only (attach_model env uri f)"
  by (simp add: constructs_only_def attach_model_def Let_def emit_def new_events_def
      split: option.splits)

lemma constructs_only_initBinding_start: "constructs_only (initBinding_start a)"
  by (simp add: constructs_only_def initBinding_start_def emit_def new_events_def)

lemma constructs_only_activate: "constructs_only (activate env p b f u)"
  unfolding activate_def Let_def
  by (intro constructs_only_seq constructs_only_emit constructs_only_assign
      constructs_only_attach_model)
    (simp_all add: constructs_only_initBinding_start constructs_only_emit
      constructs_only_assign)

lemma seq_emit_first:
  assumes q: "constructs_only rest"
  shows "hd (new_events s (snd (seq (emit e) rest s))) = e"
proof -
  let ?s1 = "s\<lparr>trace := trace s @ [e]\<rparr>"
  from q have "\<forall>s. take (length (trace s)) (trace (snd (rest s))) = trace s"
    by (simp add: constructs_only_def)
  then have "take (length (trace ?s1)) (trace (snd (rest ?s1))) = trace ?s1"
    by (rule spec)
  then have "take (length (trace ?s1)) (trace (snd (rest ?s1)))
      @ drop (length (trace ?s1)) (trace (snd (rest ?s1)))
      = trace ?s1 @ drop (length (trace ?s1)) (trace (snd (rest ?s1)))"
    by (rule arg_cong)
  then have "trace (snd (rest ?s1))
      = (trace s @ [e]) @ drop (length (trace ?s1)) (trace (snd (rest ?s1)))"
    by (simp only: append_take_drop_id) simp
  then obtain r where "trace (snd (rest ?s1)) = trace s @ e # r"
    by simp
  then show ?thesis
    by (simp add: seq_def emit_def new_events_def)
qed

lemma activate_first_event:
  "hd (new_events s (snd (activate env p b f u s))) = NewYDoc (fresh_ydoc env)"
  unfolding activate_def Let_def
  by (rule seq_emit_first)
    (intro constructs_only_seq constructs_only_emit constructs_only_assign
      constructs_only_attach_model,
      simp_all add: constructs_only_initBinding_start constructs_only_emit
      constructs_only_assign)

lemma cleanup_events_no_construct: "filter is_construct (cleanup_events fails s) = []"
  by (simp add: cleanup_events_def awareness_events_def block_events_def split: option.splits)

text \<open>
  Claim C8, as the specification states it: teardown destroys the Document Binding first,
  then the awareness layer, then the provider, then the document. On a hook with every
  component alive and no call throwing, the first teardown call of cleanupAll removes the
  awareness listener; the binding is destroyed third, after the cursor listener.
\<close>

theorem cleanupAll_binding_not_first:
  "filter is_teardown (new_events live_state (snd (cleanupAll (\<lambda>_. False) live_state)))
     = [AwarenessOff 2 5, CursorDispose 6, BindingDestroy 3, ProviderDestroy 2, YDocDestroy 1]
   \<and> hd (filter is_teardown (new_events live_state (snd (cleanupAll (\<lambda>_. False) live_state))))
       \<noteq> BindingDestroy 3"
  by (simp add: cleanupAll_new_events live_state_refs cleanup_events_def awareness_events_def
      block_events_def)

text \<open>
  Claim C8, amended. Whatever throws, cleanupAll makes its teardown calls in the order
  awareness listener, cursor listener, Document Binding, provider, document, one call for
  each component it holds (the awareness listener only when the provider is held too).
  The effect runs cleanupAll to its end before it constructs anything: it never throws,
  what it has appended to the trace when cleanupAll returns holds no construction, what it
  appends afterwards holds no teardown call, and the first thing it then does is to create
  the new document.
\<close>

theorem teardown_order:
  "List.map_filter torn_down (new_events s (snd (cleanupAll fails s)))
     = filter (held s) [AwarenessListener, CursorListener, Binding, Provider, YDoc]
   \<and> fst (useEffect_setup env fails p b f u s) = Normal
   \<and> take (length (trace (snd (seq (emit ConsoleLog) (cleanupAll fails) s))))
        (trace (snd (useEffect_setup env fails p b f u s)))
       = trace (snd (seq (emit ConsoleLog) (cleanupAll fails) s))
   \<and> filter is_construct (new_events s (snd (seq (emit ConsoleLog) (cleanupAll fails) s))) = []
   \<and> filter is_teardown (new_events (snd (seq (emit ConsoleLog) (cleanupAll fails) s))
        (snd (useEffect_setup env fails p b f u s))) = []
   \<and> hd (new_events (snd (seq (emit ConsoleLog) (cleanupAll fails) s))
        (snd (useEffect_setup env fails p b f u s))) = NewYDoc (fresh_ydoc env)"
proof -
  let ?s1 = "snd (seq (emit ConsoleLog) (cleanupAll fails) s)"
  have q: "fst (activate env p b f u ?s1) = Normal
        \<and> take (length (trace ?s1)) (trace (snd (activate env p b f u ?s1))) = trace ?s1
        \<and> filter is_teardown (new_events ?s1 (snd (activate env p b f u ?s1))) = []"
    using constructs_only_activate [of env p b f u] unfolding constructs_only_def by (rule spec)
  have c: "filter is_construct (new_events s ?s1) = []"
    by (simp add: seq_def emit_def cleanupAll_eq new_events_def cleanup_events_no_construct)
  show ?thesis
    using q c
    by (simp only: useEffect_setup_split cleanupAll_reaches_held activate_first_event)
qed

theorem teardown_order_witness:
  "List.map_filter torn_down (new_events live_state (snd (cleanupAll (\<lambda>_. False) live_state)))
     = [AwarenessListener, CursorListener, Binding, Provider, YDoc]"
  using teardown_order [of live_state "\<lambda>_. False"]
  by (simp add: held_def live_state_refs)

section \<open>Remote cursor decorations: lemmas\<close>

declare number_str.simps [simp del]

lemma digit_inj:
  assumes "a < 10" "b < 10" "(of_nat (48 + a) :: 16 word) = of_nat (48 + b)"
  shows "a = b"
proof -
  have ua: "unat (of_nat (48 + a) :: 16 word) = 48 + a"
    using assms(1) by (simp only: unat_of_nat) simp
  have ub: "unat (of_nat (48 + b) :: 16 word) = 48 + b"
    using assms(2) by (simp only: unat_of_nat) simp
  have "unat (of_nat (48 + a) :: 16 word) = unat (of_nat (48 + b) :: 16 word)"
    by (simp only: assms(3))
  then show ?thesis by (simp only: ua ub)
qed

lemma number_str_nonempty: "number_str n \<noteq> []" "[] \<noteq> number_str n"
  by (subst number_str.simps, simp)+

lemma number_str_inj: "number_str m = number_str n \<Longrightarrow> m = n"
proof (induction m arbitrary: n rule: number_str.induct)
  case (1 m)
  show ?case
  proof (cases "m < 10")
    case small_m: True
    show ?thesis
    proof (cases "n < 10")
      case True
      with small_m "1.prems" show ?thesis
        by (subst (asm) number_str.simps, subst (asm) (2) number_str.simps)
          (auto dest: digit_inj)
    next
      case False
      with small_m "1.prems" show ?thesis
        by (subst (asm) number_str.simps, subst (asm) (2) number_str.simps)
          (simp add: number_str_nonempty)
    qed
  next
    case big_m: False
    show ?thesis
    proof (cases "n < 10")
      case True
      with big_m "1.prems" show ?thesis
        by (subst (asm) number_str.simps, subst (asm) (2) number_str.simps)
          (simp add: number_str_nonempty)
    next
      case False
      with big_m "1.prems" have eq: "number_str (m div 10) = number_str (n div 10)"
        and d: "(of_nat (48 + m mod 10) :: 16 word) = of_nat (48 + n mod 10)"
        by (subst (asm) number_str.simps, subst (asm) (2) number_str.simps, simp)+
      have "m div 10 = n div 10" using "1.IH" big_m eq by simp
      moreover have "m mod 10 = n mod 10" using d by (intro digit_inj) simp_all
      ultimately show ?thesis by (metis div_mult_mod_eq)
    qed
  qed
qed

lemma foldl_push_cursor:
  "foldl (push_cursor my) acc states =
     acc @ concat (map (\<lambda>st. case cursor st of None \<Rightarrow> []
                        | Some c \<Rightarrow> if clientId st = my then [] else [cursor_decoration st c]) states)"
  by (induction states arbitrary: acc) (simp_all add: push_cursor_def split: option.splits)

lemma class_names:
  "map inlineClassName (foldl (push_cursor my) [] states) =
     map (\<lambda>st. js ''remoteCursor_'' @ number_str (clientId st))
       (filter (\<lambda>st. cursor st \<noteq> None \<and> clientId st \<noteq> my) states)"
  unfolding foldl_push_cursor
  by (induction states) (auto simp: cursor_decoration_def Let_def split: option.splits)

lemma own_class_absent:
  "js ''remoteCursor_'' @ number_str my \<notin> inlineClassName ` set (foldl (push_cursor my) [] states)"
proof -
  have "js ''remoteCursor_'' @ number_str my \<notin> set (map inlineClassName (foldl (push_cursor my) [] states))"
    unfolding class_names by (auto dest: number_str_inj)
  then show ?thesis by simp
qed

lemma updateRemoteCursorDecorations_eq:
  assumes "providerRef s = Some p" "has_editor" "has_monaco"
  shows "updateRemoteCursorDecorations has_editor has_monaco dd states s =
     s\<lparr>trace := trace s @ DeltaDecorations (decorationsRef s) (foldl (push_cursor (clientID p)) [] states)
            # (if styleEl s = None then [CreateStyleElement] else []),
       decorationsRef := dd (decorationsRef s) (foldl (push_cursor (clientID p)) [] states),
       styleEl := Some (map style_rule states)\<rparr>"
  using assms
  by (cases "styleEl s") (simp_all add: updateRemoteCursorDecorations_def Let_def)

lemma live_state_decorations: "decorationsRef live_state = []" "styleEl live_state = None"
  unfolding live_state_def setup_state
  by (simp_all add: initBinding_resume_def stmt_defs guard_stale_def
      new_activation_def chosen_model_def example_env_def initial_state_def seed_or_sync_def
      ymap_set_def Let_def empty_ydoc_def files_get_def or_empty_def truthy_def
      proto_names_def js_def)

text \<open>
  Claim C9. Without a provider, an editor or Monaco, updateRemoteCursorDecorations
  returns at once and changes nothing. When all three are there, one run makes exactly
  one \<^verbatim>\<open>deltaDecorations\<close> call. Its first argument is the whole list of decoration ids
  the previous run stored, and the ids it returns replace that list, so the next run hands
  exactly those ids back: nothing accumulates. Its second argument holds one decoration
  for each state that has a cursor and a client id other than the local one, in order,
  classed by that client id; no decoration carries the class of the local client id.
\<close>

theorem remote_cursor_decorations:
  fixes s :: hook_state and p :: provider and states states2 :: "PresenceUser list"
    and has_editor has_monaco :: bool
    and dd :: "jsstring list \<Rightarrow> decoration list \<Rightarrow> jsstring list"
  defines "decs \<equiv> foldl (push_cursor (clientID p)) [] states"
    and "s' \<equiv> updateRemoteCursorDecorations has_editor has_monaco dd states s"
  defines "s'' \<equiv> updateRemoteCursorDecorations has_editor has_monaco dd states2 s'"
  shows "(providerRef s = None \<or> \<not> has_editor \<or> \<not> has_monaco \<longrightarrow> s' = s)
       \<and> (providerRef s = Some p \<and> has_editor \<and> has_monaco \<longrightarrow>
            new_events s s' = DeltaDecorations (decorationsRef s) decs
              # (if styleEl s = None then [CreateStyleElement] else [])
          \<and> decorationsRef s' = dd (decorationsRef s) decs
          \<and> map inlineClassName decs
              = map (\<lambda>st. js ''remoteCursor_'' @ number_str (clientId st))
                  (filter (\<lambda>st. cursor st \<noteq> None \<and> clientId st \<noteq> clientID p) states)
          \<and> js ''remoteCursor_'' @ number_str (clientID p) \<notin> inlineClassName ` set decs
          \<and> new_events s' s'' = [DeltaDecorations (dd (decorationsRef s) decs)
                                    (foldl (push_cursor (clientID p)) [] states2)])"
proof -
  have early: "s' = s" if "providerRef s = None \<or> \<not> has_editor \<or> \<not> has_monaco"
    using that by (auto simp: s'_def updateRemoteCursorDecorations_def split: option.splits)
  have run: "new_events s s' = DeltaDecorations (decorationsRef s) decs
              # (if styleEl s = None then [CreateStyleElement] else [])
          \<and> decorationsRef s' = dd (decorationsRef s) decs
          \<and> map inlineClassName decs
              = map (\<lambda>st. js ''remoteCursor_'' @ number_str (clientId st))
                  (filter (\<lambda>st. cursor st \<noteq> None \<and> clientId st \<noteq> clientID p) states)
          \<and> js ''remoteCursor_'' @ number_str (clientID p) \<notin> inlineClassName ` set decs
          \<and> new_events s' s'' = [DeltaDecorations (dd (decorationsRef s) decs)
                                    (foldl (push_cursor (clientID p)) [] states2)]"
    if h: "providerRef s = Some p" "has_editor" "has_monaco"
  proof -
    have e1: "s' = s\<lparr>trace := trace s @ DeltaDecorations (decorationsRef s) decs
              # (if styleEl s = None then [CreateStyleElement] else []),
         decorationsRef := dd (decorationsRef s) decs,
         styleEl := Some (map style_rule states)\<rparr>"
      unfolding s'_def decs_def by (rule updateRemoteCursorDecorations_eq [OF h])
    have p': "providerRef s' = Some p" by (simp add: e1 h(1))
    have e2: "s'' = s'\<lparr>trace := trace s' @ DeltaDecorations (decorationsRef s')
                (foldl (push_cursor (clientID p)) [] states2)
              # (if styleEl s' = None then [CreateStyleElement] else []),
         decorationsRef := dd (decorationsRef s') (foldl (push_cursor (clientID p)) [] states2),
         styleEl := Some (map style_rule states2)\<rparr>"
      unfolding s''_def by (rule updateRemoteCursorDecorations_eq [OF p' h(2,3)])
    have a: "new_events s s' = DeltaDecorations (decorationsRef s) decs
              # (if styleEl s = None then [CreateStyleElement] else [])"
      by (simp add: e1 new_events_def)
    have b: "decorationsRef s' = dd (decorationsRef s) decs"
      by (simp add: e1)
    have c: "new_events s' s'' = [DeltaDecorations (dd (decorationsRef s) decs)
                                   (foldl (push_cursor (clientID p)) [] states2)]"
      by (subst e2) (simp add: new_events_def e1)
    show ?thesis
      using a b c class_names [of "clientID p" states] own_class_absent [of "clientID p" states]
      by (simp only: decs_def) simp
  qed
  show ?thesis using early run by blast
qed

theorem remote_cursor_decorations_witness:
  "providerRef live_state = Some \<lparr>provider_id = 2, clientID = 7\<rparr>
   \<and> new_events live_state
        (updateRemoteCursorDecorations True True (\<lambda>old ds. map inlineClassName ds)
           example_states live_state)
       = [DeltaDecorations []
            [\<lparr>range = (3, 1, 3, 1), isWholeLine = False, hoverMessage = js ''**ann@x.org**'',
              inlineClassName = js ''remoteCursor_12''\<rparr>],
          CreateStyleElement]
   \<and> decorationsRef (updateRemoteCursorDecorations True True (\<lambda>old ds. map inlineClassName ds)
           example_states live_state) = [js ''remoteCursor_12'']
   \<and> providerRef initial_state = None
   \<and> updateRemoteCursorDecorations True True (\<lambda>old ds. map inlineClassName ds)
           example_states initial_state = initial_state"
  using remote_cursor_decorations [where s = live_state and p = "\<lparr>provider_id = 2, clientID = 7\<rparr>"
      and states = example_states and has_editor = True and has_monaco = True
      and dd = "\<lambda>old ds. map inlineClassName ds"]
    remote_cursor_decorations [where s = initial_state and states = example_states
      and has_editor = True and has_monaco = True and dd = "\<lambda>old ds. map inlineClassName ds"]
  by (simp add: live_state_refs live_state_decorations example_states_def push_cursor_def
      cursor_decoration_def display_name_def number_str.simps js_def initial_state_def)

section \<open>initBinding: stale continuations\<close>

lemma resume_stale:
  "guard_stale a s \<Longrightarrow> initBinding_resume lib Resolved thr b a s = (Normal, s)"
  by (simp add: initBinding_resume_def try_catch_def)

text \<open>
  Claim C5. If, when the import of the binding module resolves, the activation's mounted
  flag is false or its Monaco model is missing or disposed, the rest of initBinding returns
  at once and leaves the whole state as it is: no insert, no metadata write, no write to
  the files record, no binding, not even a trace entry. The effect's cleanup function
  clears the mounted flag, so this holds for every activation whose cleanup has run.
\<close>

theorem stale_continuation_noop:
  "(\<not> mounted a \<or> act_model a = None \<or> (\<exists>m. act_model a = Some m \<and> isDisposed s m)
      \<longrightarrow> initBinding_resume lib Resolved ctor_throws b a s = (Normal, s))
   \<and> initBinding_resume lib Resolved ctor_throws b (fst (effect_cleanup fails a s0)) s
       = (Normal, s)"
proof -
  have "guard_stale (fst (effect_cleanup fails a s0)) s"
    by (simp add: guard_stale_def effect_cleanup_def)
  moreover have "\<not> mounted a \<or> act_model a = None \<or> (\<exists>m. act_model a = Some m \<and> isDisposed s m)
      \<Longrightarrow> guard_stale a s"
    by (auto simp: guard_stale_def)
  ultimately show ?thesis
    by (simp only: resume_stale) (auto simp: resume_stale)
qed

theorem stale_continuation_noop_witness:
  "\<not> mounted stale_example
   \<and> initBinding_resume example_lib Resolved False 3 stale_example
        (initial_state\<lparr>files := [js ''a.ts'' \<mapsto> js ''hello'']\<rparr>)
      = (Normal, initial_state\<lparr>files := [js ''a.ts'' \<mapsto> js ''hello'']\<rparr>)"
  using stale_continuation_noop [where a = stale_example
      and s = "initial_state\<lparr>files := [js ''a.ts'' \<mapsto> js ''hello'']\<rparr>"
      and lib = example_lib and ctor_throws = False and b = 3]
  by (simp add: stale_example_def)

section \<open>initBinding: seeding on first sync\<close>
















end
